theory Spec2Isabelle
  imports Complex_Main
begin

section \<open>The OrcaFlex offset controller (ControlScript-v1.py)\<close>

text \<open>
  The module defines one class, \<open>OffsetControl\<close>, with the three callbacks the simulation
  host invokes: \<open>Initialise\<close>, \<open>Calculate\<close> and \<open>Finalise\<close>. The embedding follows the
  source statement by statement.

  \<^item> Positions, rates and times are Python floats (IEEE binary64) in the source. The
    tracker of lines 105 to 113 is given twice. \<open>advance\<close> reads the arithmetic as exact
    arithmetic on \<open>real\<close> numbers; the callbacks \<open>Initialise\<close> and \<open>Calculate\<close> are written
    with it. \<open>advance64\<close> rounds the result of every subtraction and product to the nearest
    binary64 number (\<open>fl\<close>, ties to even, with gradual underflow), as the source computes
    it. Overflow to infinity is not modelled: the theorems on \<open>advance64\<close> bound the
    magnitude of their inputs by \<open>2 ^ 1000\<close>, where no operation of the tracker overflows.
    \<open>numpy.sign\<close> is \<open>sgn\<close> and \<open>abs\<close> is the absolute value; both are exact in binary64.
  \<^item> An attribute of \<open>self\<close> that only some paths of \<open>Initialise\<close> assign is an \<open>option\<close>
    field: \<open>None\<close> is "never assigned", and reading it raises \<open>AttributeError\<close>.
  \<^item> \<open>info.Workspace\<close> is a dictionary from strings to numbers; a missing key raises
    \<open>KeyError\<close>.
  \<^item> The control panel is outside the module. What \<open>self.window.Read(timeout=10)\<close> returns
    (an event, which may be Python's \<open>None\<close>, and the dictionary of slider values) is an
    argument of \<open>Calculate\<close>. The call \<open>OrcFxAPI.Period(...)\<close> on line 20 belongs to the host
    and its result is never read again; it is left out.
  \<^item> A callback that raises is \<open>Inl\<close> of the error, one that returns is \<open>Inr\<close> of the updated
    \<open>self\<close> and \<open>info\<close>.
\<close>

subsection \<open>Data\<close>

datatype error = AttributeError | KeyError | IndexError | SystemExit

text \<open>The PySimpleGUI window object; the flag records whether \<open>close()\<close> was called on it.\<close>

datatype Window = Window (closed: bool)

text \<open>The fields of the host's \<open>info\<close> object that the module reads or writes:
  \<open>info.ModelObject.Name\<close>, \<open>info.Workspace\<close>, \<open>info.NewTimeStep\<close>, \<open>info.SimulationTime\<close>,
  \<open>info.StructValue.Position\<close> and \<open>info.Model['General'].ImplicitConstantTimeStep\<close>.\<close>

record info =
  Name :: string
  Workspace :: "string \<rightharpoonup> real"
  NewTimeStep :: bool
  SimulationTime :: real
  Position :: "real list"
  ImplicitConstantTimeStep :: real

text \<open>The attributes of an \<open>OffsetControl\<close> instance. \<open>Initialise\<close> assigns the first nine on
  every path; the others are assigned only for one of the two controlled objects, or only
  by \<open>Calculate\<close>.\<close>

record OffsetControl =
  StartTime :: real
  TimeStep :: real
  OffsetMaster :: string
  SupportMaster :: string
  GUItext :: "string list"
  ScaleMax :: "real list"
  ScaleMin :: "real list"
  RateMaxList :: "real list"
  ScaleRes :: "real list"
  RateMax :: "real option"
  RateStep :: "real option"
  maxOffset :: "real option"
  TargetOffset :: "real option"
  TargetOffsetScale :: "real option"
  window :: "Window option"
  PositionLast :: "real option"
  PositionError :: "real option"
  ErrorDir :: "real option"

text \<open>Sequencing of statements that may raise.\<close>

definition and_then :: "error + 'a \<Rightarrow> ('a \<Rightarrow> error + 'b) \<Rightarrow> error + 'b" where
  "and_then m f = (case m of Inl e \<Rightarrow> Inl e | Inr a \<Rightarrow> f a)"

definition raises :: "error + 'a \<Rightarrow> bool" where
  "raises r = (case r of Inl e \<Rightarrow> True | Inr a \<Rightarrow> False)"

text \<open>Reading an attribute that may be unset, and a dictionary entry that may be missing.\<close>

definition attr :: "'a option \<Rightarrow> error + 'a" where
  "attr a = (case a of None \<Rightarrow> Inl AttributeError | Some v \<Rightarrow> Inr v)"

definition item :: "(string \<rightharpoonup> 'a) \<Rightarrow> string \<Rightarrow> error + 'a" where
  "item d k = (case d k of None \<Rightarrow> Inl KeyError | Some v \<Rightarrow> Inr v)"

subsection \<open>Initialise (lines 17 to 67)\<close>

text \<open>Lines 23 to 35: the attributes assigned for every model object.\<close>

definition settings :: "info \<Rightarrow> OffsetControl" where
  "settings info =
     \<lparr> StartTime = 1,
       TimeStep = ImplicitConstantTimeStep info,
       OffsetMaster = ''ShaftOffset-Controlled'',
       SupportMaster = ''MoveSupport-Controlled'',
       GUItext = [''Cam Offset (mm)'', ''Support Offset (m)''],
       ScaleMax = [150, 3.0],
       ScaleMin = [0, 0],
       RateMaxList = [0.02, 0.30],
       ScaleRes = [1, 0.01],
       RateMax = None, RateStep = None, maxOffset = None,
       TargetOffset = None, TargetOffsetScale = None, window = None,
       PositionLast = None, PositionError = None, ErrorDir = None \<rparr>"

text \<open>Lines 38 to 44: the settings of the cam (piston) offset.\<close>

definition init_offset :: "OffsetControl \<times> info \<Rightarrow> OffsetControl \<times> info" where
  "init_offset = (\<lambda>(self, info).
     if Name info = OffsetMaster self then
       (self \<lparr> RateMax := Some (RateMaxList self ! 0),
               RateStep := Some ((RateMaxList self ! 0) * TimeStep self),
               maxOffset := Some ((ScaleMax self ! 0) / 1000),
               TargetOffset := Some ((ScaleMin self ! 0) / 1000),
               TargetOffsetScale := Some 0 \<rparr>,
        info \<lparr> Workspace := (Workspace info)(''camdata'' \<mapsto> 0) \<rparr>)
     else (self, info))"

text \<open>Lines 47 to 53: the settings of the support offset.\<close>

definition init_support :: "OffsetControl \<times> info \<Rightarrow> OffsetControl \<times> info" where
  "init_support = (\<lambda>(self, info).
     if Name info = SupportMaster self then
       (self \<lparr> RateMax := Some (RateMaxList self ! 1),
               RateStep := Some ((RateMaxList self ! 1) * TimeStep self),
               maxOffset := Some (ScaleMax self ! 1),
               TargetOffset := Some (ScaleMin self ! 1),
               TargetOffsetScale := Some 0 \<rparr>,
        info \<lparr> Workspace := (Workspace info)(''supportdata'' \<mapsto> 0) \<rparr>)
     else (self, info))"

text \<open>Lines 57 to 67: only the cam offset object creates the window.\<close>

definition init_window :: "OffsetControl \<times> info \<Rightarrow> OffsetControl \<times> info" where
  "init_window = (\<lambda>(self, info).
     if Name info = OffsetMaster self then (self \<lparr> window := Some (Window False) \<rparr>, info)
     else (self, info))"

text \<open>No statement of \<open>Initialise\<close> raises or checks anything.\<close>

definition Initialise :: "info \<Rightarrow> error + (OffsetControl \<times> info)" where
  "Initialise info = Inr (init_window (init_support (init_offset (settings info, info))))"

subsection \<open>Calculate (lines 70 to 116)\<close>

text \<open>Lines 77 to 88: the cam offset object polls the window. \<open>rd\<close> is the pair
  \<open>(event, values)\<close> that \<open>self.window.Read(timeout=10)\<close> returns.\<close>

definition record_cam :: "string option \<times> (string \<rightharpoonup> real) \<Rightarrow> info \<Rightarrow> error + info" where
  "record_cam = (\<lambda>(event, vals) info.
     if event = Some ''cam'' then
       and_then (item vals ''cam'')
         (\<lambda>v. Inr (info \<lparr> Workspace := (Workspace info)(''camdata'' \<mapsto> v) \<rparr>))
     else Inr info)"

definition record_support :: "string option \<times> (string \<rightharpoonup> real) \<Rightarrow> info \<Rightarrow> error + info" where
  "record_support = (\<lambda>(event, vals) info.
     if event = Some ''support'' then
       and_then (item vals ''support'')
         (\<lambda>v. Inr (info \<lparr> Workspace := (Workspace info)(''supportdata'' \<mapsto> v) \<rparr>))
     else Inr info)"

definition poll_window ::
  "OffsetControl \<Rightarrow> info \<Rightarrow> string option \<times> (string \<rightharpoonup> real) \<Rightarrow> error + info" where
  "poll_window self info rd =
     (if Name info = OffsetMaster self then
        and_then (attr (window self)) (\<lambda>w.
          if fst rd = None \<or> fst rd = Some ''Exit'' then Inl SystemExit
          else if fst rd \<noteq> None then and_then (record_cam rd info) (record_support rd)
          else Inr info)
      else Inr info)"

text \<open>Lines 91 to 96: the target offset is taken from the workspace; the cam value is in
  millimetres.\<close>

definition target_offset :: "OffsetControl \<Rightarrow> info \<Rightarrow> error + OffsetControl" where
  "target_offset self info =
     (if Name info = OffsetMaster self then
        and_then (item (Workspace info) ''camdata'')
          (\<lambda>v. Inr (self \<lparr> TargetOffsetScale := Some v, TargetOffset := Some (v / 1000) \<rparr>))
      else Inr self)"

definition target_support :: "OffsetControl \<Rightarrow> info \<Rightarrow> error + OffsetControl" where
  "target_support self info =
     (if Name info = SupportMaster self then
        and_then (item (Workspace info) ''supportdata'')
          (\<lambda>v. Inr (self \<lparr> TargetOffsetScale := Some v, TargetOffset := Some v \<rparr>))
      else Inr self)"

text \<open>Lines 105 to 113, the rate-limited tracker that the specification calls \<open>advance\<close>:
  the new position from the last position \<open>current\<close>, the target offset \<open>target\<close> and the
  step \<open>maxStepDelta\<close> (\<open>self.RateStep\<close>). \<open>support\<close> is the test
  \<open>info.ModelObject.Name == self.SupportMaster\<close> of line 111: \<open>True\<close> for the support object
  (the hold policy), \<open>False\<close> for the cam offset object (the snap policy). The arithmetic is
  exact here; \<open>advance64\<close> below rounds each operation as the source does.\<close>

definition advance :: "bool \<Rightarrow> real \<Rightarrow> real \<Rightarrow> real \<Rightarrow> real" where
  "advance support current target maxStepDelta =
     (let PositionError = current - target;
          ErrorDir = sgn PositionError
      in if \<bar>PositionError\<bar> > maxStepDelta then current - (maxStepDelta * ErrorDir)
         else if support then current
         else current - (PositionError * ErrorDir))"

text \<open>Lines 104 to 116: read the X position, compute the new one, write it back.\<close>

definition move :: "OffsetControl \<Rightarrow> info \<Rightarrow> error + (OffsetControl \<times> info)" where
  "move self info =
     (case Position info of
        [] \<Rightarrow> Inl IndexError
      | x # rest \<Rightarrow>
          and_then (attr (TargetOffset self)) (\<lambda>t.
            and_then (attr (RateStep self)) (\<lambda>r.
              Inr (self \<lparr> PositionLast := Some x,
                          PositionError := Some (x - t),
                          ErrorDir := Some (sgn (x - t)) \<rparr>,
                   info \<lparr> Position :=
                            advance (Name info = SupportMaster self) x t r # rest \<rparr>))))"

definition Calculate ::
  "OffsetControl \<Rightarrow> info \<Rightarrow> string option \<times> (string \<rightharpoonup> real) \<Rightarrow> error + (OffsetControl \<times> info)"
  where
  "Calculate self info rd =
     (if \<not> NewTimeStep info then Inr (self, info)
      else
        and_then (poll_window self info rd) (\<lambda>info1.
          and_then (target_offset self info1) (\<lambda>self1.
            and_then (target_support self1 info1) (\<lambda>self2.
              if SimulationTime info1 < StartTime self2 then Inr (self2, info1)
              else move self2 info1))))"

subsection \<open>Finalise (lines 120 to 121)\<close>

definition close :: "Window \<Rightarrow> Window" where
  "close w = Window True"

definition Finalise :: "OffsetControl \<Rightarrow> error + OffsetControl" where
  "Finalise self =
     and_then (attr (window self)) (\<lambda>w. Inr (self \<lparr> window := Some (close w) \<rparr>))"

subsection \<open>Repeated steps\<close>


subsection \<open>The host's call sequences\<close>

text \<open>The host calls \<open>Initialise\<close> once for each controlled object and then \<open>Calculate\<close> at
  every step, with the same \<open>info\<close> object; \<open>t\<close> is the simulation time of the step. At reset
  it calls \<open>Finalise\<close>.\<close>

definition Initialise_then_Calculate ::
  "info \<Rightarrow> real \<Rightarrow> string option \<times> (string \<rightharpoonup> real) \<Rightarrow> error + (OffsetControl \<times> info)" where
  "Initialise_then_Calculate info t rd =
     and_then (Initialise info)
       (\<lambda>(self, info'). Calculate self (info' \<lparr> NewTimeStep := True, SimulationTime := t \<rparr>) rd)"

definition Initialise_then_Finalise :: "info \<Rightarrow> error + OffsetControl" where
  "Initialise_then_Finalise info = and_then (Initialise info) (\<lambda>(self, info'). Finalise self)"

definition new_position :: "error + (OffsetControl \<times> info) \<Rightarrow> error + real list" where
  "new_position r = and_then r (\<lambda>(self, info). Inr (Position info))"

subsection \<open>Binary64 arithmetic\<close>

text \<open>A Python float is an IEEE binary64 number: an integer multiple \<open>m * 2 ^ k\<close> with
  \<open>\<bar>m\<bar> < 2 ^ 53\<close> and \<open>k \<ge> -1074\<close>. Every arithmetic operation returns the binary64 number
  nearest to the exact result, a tie going to the even multiple.\<close>

text \<open>The nearest integer, ties to even.\<close>

definition round_half_even :: "real \<Rightarrow> int" where
  "round_half_even x =
     (let n = \<lfloor>x\<rfloor>; r = x - of_int n
      in if r < 1 / 2 then n else if 1 / 2 < r then n + 1 else if even n then n else n + 1)"

text \<open>The exponent \<open>k\<close> of the spacing \<open>2 ^ k\<close> of the binary64 numbers around \<open>x\<close>:
  \<open>2 ^ (k + 52) \<le> \<bar>x\<bar> < 2 ^ (k + 53)\<close>, and \<open>k = -1074\<close> for the subnormal numbers below
  \<open>2 ^ -1022\<close>. It is searched from \<open>k = 0\<close>, upwards or downwards; 1074 steps reach every
  exponent of binary64.\<close>

primrec exp_up :: "nat \<Rightarrow> real \<Rightarrow> int \<Rightarrow> int" where
  "exp_up 0 x k = k"
| "exp_up (Suc n) x k = (if 2 powi (k + 53) \<le> x then exp_up n x (k + 1) else k)"

primrec exp_down :: "nat \<Rightarrow> real \<Rightarrow> int \<Rightarrow> int" where
  "exp_down 0 x k = k"
| "exp_down (Suc n) x k = (if x < 2 powi (k + 52) then exp_down n x (k - 1) else k)"

definition exponent :: "real \<Rightarrow> int" where
  "exponent x = (if 2 ^ 53 \<le> \<bar>x\<bar> then exp_up 1074 \<bar>x\<bar> 0 else exp_down 1074 \<bar>x\<bar> 0)"

text \<open>The spacing of the binary64 numbers around \<open>x\<close> (the unit in the last place), and the
  rounding of a real number to binary64.\<close>

definition ulp :: "real \<Rightarrow> real" where
  "ulp x = 2 powi exponent x"

definition fl :: "real \<Rightarrow> real" where
  "fl x = ulp x * of_int (round_half_even (x / ulp x))"

text \<open>Lines 105 to 113 as the source computes them: the subtraction of line 105, the
  products and the subtractions of lines 109 and 113 are each rounded. The arguments are as
  for \<open>advance\<close>.\<close>

definition advance64 :: "bool \<Rightarrow> real \<Rightarrow> real \<Rightarrow> real \<Rightarrow> real" where
  "advance64 support current target maxStepDelta =
     (let PositionError = fl (current - target);
          ErrorDir = sgn PositionError
      in if \<bar>PositionError\<bar> > maxStepDelta then fl (current - fl (maxStepDelta * ErrorDir))
         else if support then current
         else fl (current - fl (PositionError * ErrorDir)))"

section \<open>Properties\<close>

subsection \<open>Single steps of the tracker\<close>

lemmas run_defs = Initialise_then_Calculate_def Initialise_then_Finalise_def new_position_def
  Initialise_def settings_def init_offset_def init_support_def init_window_def
  Calculate_def poll_window_def record_cam_def record_support_def target_offset_def
  target_support_def move_def Finalise_def and_then_def attr_def item_def


lemma advance_above:
  "target + maxStepDelta < current \<Longrightarrow> 0 \<le> maxStepDelta \<Longrightarrow>
   advance support current target maxStepDelta = current - maxStepDelta"
  by (simp add: advance_def Let_def sgn_real_def abs_if)


lemma advance_snap_above:
  "target \<le> current \<Longrightarrow> current - target \<le> maxStepDelta \<Longrightarrow>
   advance False current target maxStepDelta = target"
  by (simp add: advance_def Let_def sgn_real_def abs_if)

text \<open>In exact arithmetic one step changes the position by at most \<open>maxStepDelta\<close>.\<close>

lemma advance_step_bounded:
  "0 \<le> maxStepDelta \<Longrightarrow>
   \<bar>advance support current target maxStepDelta - current\<bar> \<le> maxStepDelta"
  by (auto simp: advance_def Let_def sgn_real_def abs_if)


subsection \<open>Calculate and the tracker\<close>

lemma and_then_Inr: "and_then m f = Inr b \<Longrightarrow> \<exists>a. m = Inr a \<and> f a = Inr b"
  by (cases m) (simp_all add: and_then_def)

text \<open>Polling the window changes the workspace only; taking the target changes
  \<open>TargetOffsetScale\<close> and \<open>TargetOffset\<close> only.\<close>

lemma poll_window_frame:
  "poll_window self info rd = Inr info1 \<Longrightarrow>
   Position info1 = Position info \<and> SimulationTime info1 = SimulationTime info \<and>
   Name info1 = Name info \<and> NewTimeStep info1 = NewTimeStep info"
  by (cases rd) (auto simp: poll_window_def record_cam_def record_support_def and_then_def
      attr_def item_def split: if_splits option.splits sum.splits)

lemma target_offset_frame:
  "target_offset self info = Inr self1 \<Longrightarrow>
   StartTime self1 = StartTime self \<and> SupportMaster self1 = SupportMaster self \<and>
   OffsetMaster self1 = OffsetMaster self \<and> RateStep self1 = RateStep self"
  by (auto simp: target_offset_def and_then_def item_def split: if_splits option.splits)

lemma target_support_frame:
  "target_support self info = Inr self1 \<Longrightarrow>
   StartTime self1 = StartTime self \<and> SupportMaster self1 = SupportMaster self \<and>
   OffsetMaster self1 = OffsetMaster self \<and> RateStep self1 = RateStep self"
  by (auto simp: target_support_def and_then_def item_def split: if_splits option.splits)

lemma move_advance:
  "move self info = Inr (self', info') \<Longrightarrow>
   \<exists>x rest t r. Position info = x # rest \<and> TargetOffset self = Some t \<and> RateStep self = Some r \<and>
     TargetOffset self' = Some t \<and> RateStep self' = Some r \<and>
     Position info' = advance (Name info = SupportMaster self) x t r # rest"
  by (auto simp: move_def and_then_def attr_def split: list.splits option.splits)

text \<open>After the start time, a call of \<open>Calculate\<close> that returns has replaced the X position by
  \<open>advance\<close> of it, with the target offset and the rate step the instance holds on return.\<close>

lemma Calculate_advance:
  assumes new: "NewTimeStep info"
    and late: "\<not> SimulationTime info < StartTime self"
    and ret: "Calculate self info rd = Inr (self', info')"
  shows "\<exists>x rest t r. Position info = x # rest \<and>
           TargetOffset self' = Some t \<and> RateStep self' = Some r \<and> RateStep self = Some r \<and>
           Position info' = advance (Name info = SupportMaster self) x t r # rest"
proof -
  from ret new obtain info1 self1 self2 where
    p: "poll_window self info rd = Inr info1" and
    t1: "target_offset self info1 = Inr self1" and
    t2: "target_support self1 info1 = Inr self2" and
    r: "(if SimulationTime info1 < StartTime self2 then Inr (self2, info1) else move self2 info1)
          = Inr (self', info')"
    unfolding Calculate_def by (auto dest!: and_then_Inr)
  have "\<not> SimulationTime info1 < StartTime self2"
    using late poll_window_frame[OF p] target_offset_frame[OF t1] target_support_frame[OF t2]
    by simp
  with r have "move self2 info1 = Inr (self', info')" by simp
  from move_advance[OF this] show ?thesis
    using poll_window_frame[OF p] target_offset_frame[OF t1] target_support_frame[OF t2]
    by auto
qed

subsection \<open>The worked example of the specification\<close>





subsection \<open>Convergence\<close>




subsection \<open>Calculate before the start time\<close>

text \<open>Before the start time, a call for an object that does not own the window returns, with
  \<open>info\<close> as it was, whenever the workspace entry it reads exists.\<close>

lemma Calculate_early_returns:
  assumes "NewTimeStep info" "SimulationTime info < StartTime self"
    and "Name info \<noteq> OffsetMaster self"
    and "Name info \<noteq> SupportMaster self \<or> Workspace info ''supportdata'' = Some v"
  shows "\<exists>self'. Calculate self info rd = Inr (self', info)"
  using assms
  by (auto simp: Calculate_def poll_window_def target_offset_def target_support_def
      and_then_def item_def)

subsection \<open>Rounding to binary64\<close>

text \<open>The exponent search finds the binade of its argument, for every magnitude below
  \<open>2 ^ 1024\<close>.\<close>

lemma pow2_less_exp: "(2::real) powi a < 2 powi b \<Longrightarrow> a < b"
proof (rule ccontr)
  assume lt: "(2::real) powi a < 2 powi b" and "\<not> a < b"
  then have "b \<le> a" by simp
  then have "(2::real) powi b \<le> 2 powi a" by (intro power_int_increasing) simp_all
  with lt show False by simp
qed

lemma pow2_mono: "a \<le> b \<Longrightarrow> (2::real) powi a \<le> 2 powi b"
  by (intro power_int_increasing) simp_all

lemma exp_down_form:
  "x < 2 powi (k + 53) \<Longrightarrow>
   k - int n \<le> exp_down n x k \<and> exp_down n x k \<le> k \<and> x < 2 powi (exp_down n x k + 53) \<and>
   (2 powi (exp_down n x k + 52) \<le> x \<or> exp_down n x k = k - int n)"
proof (induction n arbitrary: k)
  case 0
  then show ?case by simp
next
  case (Suc n)
  show ?case
  proof (cases "x < 2 powi (k + 52)")
    case True
    then have "x < 2 powi ((k - 1) + 53)" by (simp add: algebra_simps)
    from Suc.IH[OF this] True show ?thesis by (simp add: algebra_simps)
  next
    case False
    then show ?thesis using Suc.prems by simp
  qed
qed

lemma exp_up_form:
  "2 powi (k + 52) \<le> x \<Longrightarrow>
   k \<le> exp_up n x k \<and> exp_up n x k \<le> k + int n \<and> 2 powi (exp_up n x k + 52) \<le> x \<and>
   (x < 2 powi (exp_up n x k + 53) \<or> exp_up n x k = k + int n)"
proof (induction n arbitrary: k)
  case 0
  then show ?case by simp
next
  case (Suc n)
  show ?case
  proof (cases "2 powi (k + 53) \<le> x")
    case True
    then have "2 powi ((k + 1) + 52) \<le> x" by (simp add: algebra_simps)
    from Suc.IH[OF this] True show ?thesis by (simp add: algebra_simps)
  next
    case False
    then show ?thesis using Suc.prems by simp
  qed
qed

lemma exponent_char:
  assumes "\<bar>x\<bar> < 2 ^ 1024"
  shows "- 1074 \<le> exponent x \<and> exponent x \<le> 971 \<and> \<bar>x\<bar> < 2 powi (exponent x + 53) \<and>
         (2 powi (exponent x + 52) \<le> \<bar>x\<bar> \<or> exponent x = - 1074)"
proof (cases "2 ^ 53 \<le> \<bar>x\<bar>")
  case True
  then have e: "exponent x = exp_up 1074 \<bar>x\<bar> 0" by (simp add: exponent_def)
  have "2 powi (0 + 52) \<le> \<bar>x\<bar>" using True by simp
  from exp_up_form[OF this, of 1074]
  have f: "0 \<le> exponent x" "2 powi (exponent x + 52) \<le> \<bar>x\<bar>"
    "\<bar>x\<bar> < 2 powi (exponent x + 53) \<or> exponent x = 1074"
    unfolding e by simp_all
  have "(2::real) powi (exponent x + 52) < 2 powi 1024" using f(2) assms by simp
  then have le: "exponent x + 52 < 1024" by (rule pow2_less_exp)
  with f show ?thesis by auto
next
  case False
  then have e: "exponent x = exp_down 1074 \<bar>x\<bar> 0" by (simp add: exponent_def)
  have "\<bar>x\<bar> < 2 powi (0 + 53)" using False by simp
  from exp_down_form[OF this, of 1074] show ?thesis unfolding e by simp
qed

lemma exponent_eqI:
  assumes "- 1074 \<le> k" "\<bar>x\<bar> < 2 powi (k + 53)" "2 powi (k + 52) \<le> \<bar>x\<bar> \<or> k = - 1074"
    and "\<bar>x\<bar> < 2 ^ 1024"
  shows "exponent x = k"
proof -
  note c = exponent_char[OF assms(4)]
  have "k \<le> exponent x"
  proof (cases "k = - 1074")
    case True
    then show ?thesis using c by simp
  next
    case False
    then have "(2::real) powi (k + 52) < 2 powi (exponent x + 53)" using assms(3) c by simp
    then show ?thesis using pow2_less_exp by fastforce
  qed
  moreover have "exponent x \<le> k"
  proof (cases "exponent x = - 1074")
    case True
    then show ?thesis using assms(1) by simp
  next
    case False
    then have "(2::real) powi (exponent x + 52) < 2 powi (k + 53)" using assms(2) c by simp
    then show ?thesis using pow2_less_exp by fastforce
  qed
  ultimately show ?thesis by simp
qed

lemma exponent_mono:
  assumes "\<bar>x\<bar> \<le> \<bar>y\<bar>" "\<bar>y\<bar> < 2 ^ 1024"
  shows "exponent x \<le> exponent y"
proof -
  have x: "\<bar>x\<bar> < 2 ^ 1024" using assms by simp
  note cx = exponent_char[OF x] and cy = exponent_char[OF assms(2)]
  show ?thesis
  proof (cases "exponent x = - 1074")
    case True
    then show ?thesis using cy by simp
  next
    case False
    then have "(2::real) powi (exponent x + 52) < 2 powi (exponent y + 53)"
      using cx cy assms(1) by simp
    then show ?thesis using pow2_less_exp by fastforce
  qed
qed

lemma ulp_pos: "0 < ulp x"
  by (simp add: ulp_def)

lemma round_half_even_bounds:
  "\<bar>of_int (round_half_even z) - z\<bar> \<le> 1 / 2"
proof -
  define n where "n = \<lfloor>z\<rfloor>"
  define r where "r = z - of_int n"
  have r: "0 \<le> r" "r < 1" unfolding r_def n_def by linarith+
  have z: "z = of_int n + r" by (simp add: r_def)
  have "round_half_even z = n \<and> r \<le> 1 / 2 \<or> round_half_even z = n + 1 \<and> 1 / 2 \<le> r"
    unfolding round_half_even_def Let_def n_def[symmetric] r_def[symmetric] by auto
  then show ?thesis
  proof
    assume "round_half_even z = n \<and> r \<le> 1 / 2"
    then show ?thesis using r by (simp add: z)
  next
    assume "round_half_even z = n + 1 \<and> 1 / 2 \<le> r"
    then show ?thesis using r by (simp add: z)
  qed
qed

lemma round_half_even_le: "z \<le> of_int n \<Longrightarrow> round_half_even z \<le> n"
proof -
  assume a: "z \<le> of_int n"
  have "\<lfloor>z\<rfloor> \<le> n" using a by (simp add: floor_le_iff)
  show ?thesis
  proof (cases "\<lfloor>z\<rfloor> = n")
    case True
    then have "z = of_int n" using a by linarith
    then show ?thesis by (simp add: round_half_even_def)
  next
    case False
    then have "\<lfloor>z\<rfloor> + 1 \<le> n" using \<open>\<lfloor>z\<rfloor> \<le> n\<close> by simp
    then show ?thesis unfolding round_half_even_def Let_def by auto
  qed
qed

lemma round_half_even_ge: "of_int n \<le> z \<Longrightarrow> n \<le> round_half_even z"
proof -
  assume a: "of_int n \<le> z"
  then have "n \<le> \<lfloor>z\<rfloor>" by (simp add: le_floor_iff)
  then show ?thesis unfolding round_half_even_def Let_def by auto
qed

lemma round_half_even_of_int [simp]: "round_half_even (of_int n) = n"
  using round_half_even_le[of "of_int n" n] round_half_even_ge[of n "of_int n"] by simp

lemma fl_error: "\<bar>fl x - x\<bar> \<le> ulp x / 2"
proof -
  have "fl x - x = ulp x * (of_int (round_half_even (x / ulp x)) - x / ulp x)"
    using ulp_pos[of x] by (simp add: fl_def algebra_simps)
  then have "\<bar>fl x - x\<bar> = ulp x * \<bar>of_int (round_half_even (x / ulp x)) - x / ulp x\<bar>"
    using ulp_pos[of x] by (simp add: abs_mult)
  also have "\<dots> \<le> ulp x * (1 / 2)"
    using ulp_pos[of x] round_half_even_bounds by (intro mult_left_mono) simp_all
  finally show ?thesis by simp
qed

lemma fl_le_grid: "x \<le> of_int n * ulp x \<Longrightarrow> fl x \<le> of_int n * ulp x"
proof -
  assume "x \<le> of_int n * ulp x"
  then have "x / ulp x \<le> of_int n" using ulp_pos[of x] by (simp add: pos_divide_le_eq)
  then have "round_half_even (x / ulp x) \<le> n" by (rule round_half_even_le)
  then have "(of_int (round_half_even (x / ulp x)) :: real) \<le> of_int n" by simp
  then show ?thesis using ulp_pos[of x] by (simp add: fl_def mult.commute)
qed

lemma fl_ge_grid: "of_int n * ulp x \<le> x \<Longrightarrow> of_int n * ulp x \<le> fl x"
proof -
  assume "of_int n * ulp x \<le> x"
  then have "of_int n \<le> x / ulp x" using ulp_pos[of x] by (simp add: pos_le_divide_eq)
  then have "n \<le> round_half_even (x / ulp x)" by (rule round_half_even_ge)
  then have "(of_int n :: real) \<le> of_int (round_half_even (x / ulp x))" by simp
  then show ?thesis using ulp_pos[of x] by (simp add: fl_def mult.commute)
qed

lemma exponent_minus [simp]: "exponent (- x) = exponent x"
  by (simp add: exponent_def)

lemma ulp_minus [simp]: "ulp (- x) = ulp x"
  by (simp add: ulp_def)

lemma round_half_even_minus: "round_half_even (- z) = - round_half_even z"
proof (cases "z = of_int \<lfloor>z\<rfloor>")
  case True
  then obtain n where "z = of_int n" by blast
  then have "- z = of_int (- n)" by simp
  then show ?thesis using \<open>z = of_int n\<close> by (simp only: round_half_even_of_int)
next
  case False
  define n where "n = \<lfloor>z\<rfloor>"
  define r where "r = z - of_int n"
  have "of_int n \<le> z" "z < of_int n + 1" unfolding n_def by linarith+
  then have r: "0 < r" "r < 1" using False unfolding r_def n_def by linarith+
  have fm: "\<lfloor>- z\<rfloor> = - n - 1"
    using r unfolding r_def by (intro floor_unique) simp_all
  have rm: "- z - of_int (- n - 1) = 1 - r" by (simp add: r_def)
  have a: "round_half_even z =
      (if r < 1 / 2 then n else if 1 / 2 < r then n + 1 else if even n then n else n + 1)"
    unfolding round_half_even_def Let_def n_def[symmetric] r_def[symmetric] by simp
  have b: "round_half_even (- z) =
      (if 1 - r < 1 / 2 then - n - 1 else if 1 / 2 < 1 - r then - n
       else if even (- n - 1) then - n - 1 else - n)"
    unfolding round_half_even_def Let_def fm rm by simp
  show ?thesis unfolding a b using r by auto
qed

lemma fl_minus: "fl (- x) = - fl x"
  by (simp add: fl_def round_half_even_minus)

lemma fl_zero [simp]: "fl 0 = 0"
  using round_half_even_of_int[of 0] by (simp add: fl_def)

lemma fl_nonpos: "x \<le> 0 \<Longrightarrow> fl x \<le> 0"
  using fl_le_grid[of x 0] by simp

lemma fl_nonneg: "0 \<le> x \<Longrightarrow> 0 \<le> fl x"
  using fl_ge_grid[of 0 x] by simp

lemma double_on_grid:
  assumes "fl c = c" "exponent y \<le> exponent c"
  shows "\<exists>n. c = of_int n * ulp y"
proof -
  define d where "d = nat (exponent c - exponent y)"
  have "exponent c = exponent y + int d" using assms(2) by (simp add: d_def)
  then have "ulp c = 2 powi (exponent y + int d)" by (simp add: ulp_def)
  also have "\<dots> = ulp y * 2 ^ d" by (simp add: power_int_add ulp_def)
  finally have u: "ulp c = ulp y * 2 ^ d" .
  have "c = ulp c * of_int (round_half_even (c / ulp c))"
    using assms(1) by (simp add: fl_def)
  also have "\<dots> = of_int (round_half_even (c / ulp c) * 2 ^ d) * ulp y"
    by (simp add: u)
  finally show ?thesis by blast
qed

lemma fl_le_double:
  assumes c: "fl c = c" and le: "y \<le> c" and ry: "\<bar>y\<bar> < 2 ^ 1024" and rc: "\<bar>c\<bar> < 2 ^ 1024"
  shows "fl y \<le> c"
proof (cases "exponent y \<le> exponent c")
  case True
  from double_on_grid[OF c True] obtain n where n: "c = of_int n * ulp y" by blast
  then have "y \<le> of_int n * ulp y" using le by simp
  then show ?thesis using fl_le_grid n by metis
next
  case False
  then have lt: "exponent c < exponent y" by simp
  have "\<not> \<bar>y\<bar> \<le> \<bar>c\<bar>" using exponent_mono[of y c] rc lt by fastforce
  then have ac: "\<bar>c\<bar> < \<bar>y\<bar>" by simp
  then have neg: "y < 0" using le by linarith
  note cy = exponent_char[OF ry] and cc = exponent_char[OF rc]
  have "exponent y \<noteq> - 1074" using lt cc by linarith
  then have low: "2 powi (exponent y + 52) \<le> \<bar>y\<bar>" using cy by simp
  have g: "of_int (- (2 ^ 52)) * ulp y = - (2 powi (exponent y + 52))"
    by (simp add: ulp_def power_int_add)
  have "y \<le> of_int (- (2 ^ 52)) * ulp y" unfolding g using low neg by simp
  then have "fl y \<le> of_int (- (2 ^ 52)) * ulp y" by (rule fl_le_grid)
  then have "fl y \<le> - (2 powi (exponent y + 52))" unfolding g .
  moreover have "\<bar>c\<bar> < 2 powi (exponent c + 53)" using cc by simp
  moreover have "(2::real) powi (exponent c + 53) \<le> 2 powi (exponent y + 52)"
    using lt by (intro pow2_mono) simp
  ultimately show ?thesis by linarith
qed

lemma fl_ge_double:
  assumes c: "fl c = c" and le: "c \<le> y" and ry: "\<bar>y\<bar> < 2 ^ 1024" and rc: "\<bar>c\<bar> < 2 ^ 1024"
  shows "c \<le> fl y"
proof -
  have "fl (- c) = - c" using c by (simp add: fl_minus)
  from fl_le_double[OF this, of "- y"] le ry rc have "fl (- y) \<le> - c" by simp
  then show ?thesis by (simp add: fl_minus)
qed

lemma fl_eval:
  assumes "- 1074 \<le> k" "\<bar>x\<bar> < 2 powi (k + 53)" "2 powi (k + 52) \<le> \<bar>x\<bar> \<or> k = - 1074"
    and "\<bar>x\<bar> < 2 ^ 1024"
  shows "fl x = 2 powi k * of_int (round_half_even (x / 2 powi k))"
  using exponent_eqI[OF assms] by (simp add: fl_def ulp_def)


lemma fl_fl_nonneg:
  assumes y: "0 \<le> y" and ry: "y < 2 ^ 1023"
  shows "fl (fl y) = fl y"
proof -
  define k where "k = exponent y"
  define m where "m = round_half_even (y / ulp y)"
  have u: "ulp y = 2 powi k" by (simp add: ulp_def k_def)
  have f: "fl y = 2 powi k * of_int m" by (simp add: fl_def m_def u)
  have r: "\<bar>y\<bar> < 2 ^ 1024" using y ry by simp
  note c = exponent_char[OF r, folded k_def]
  have k970: "k \<le> 970"
  proof (rule ccontr)
    assume "\<not> k \<le> 970"
    then have k: "k = 971" using c by linarith
    then have "2 powi (k + 52) \<le> \<bar>y\<bar>" using c by linarith
    then show False using ry y k by simp
  qed
  have "0 \<le> y / ulp y" using y ulp_pos[of y] by simp
  then have "of_int 0 \<le> y / ulp y" by simp
  then have m0: "0 \<le> m" unfolding m_def by (rule round_half_even_ge)
  have "y < 2 powi k * 2 ^ 53" using c y by (simp add: power_int_add)
  then have "y / ulp y \<le> of_int (2 ^ 53)"
    using ulp_pos[of y] by (simp add: u pos_divide_le_eq mult.commute)
  then have m53: "m \<le> 2 ^ 53" unfolding m_def by (rule round_half_even_le)
  have fy0: "0 \<le> fl y" using y by (rule fl_nonneg)
  show ?thesis
  proof (cases "m = 2 ^ 53")
    case True
    then have fy: "fl y = 2 powi (k + 53)" by (simp add: f power_int_add)
    have "(2::real) powi (k + 53) \<le> 2 powi 1023" using k970 by (intro pow2_mono) simp
    then have r2: "\<bar>fl y\<bar> < 2 ^ 1024" by (simp add: fy)
    have "(2::real) powi (k + 53) < 2 powi (k + 53 + 1)"
      by (intro power_int_strict_increasing) simp_all
    then have up: "\<bar>fl y\<bar> < 2 powi ((k + 1) + 53)" by (simp add: fy algebra_simps)
    have lo: "2 powi ((k + 1) + 52) \<le> \<bar>fl y\<bar>" by (simp add: fy algebra_simps)
    have "- 1074 \<le> k + 1" using c by simp
    from fl_eval[OF this up _ r2] lo
    have "fl (fl y) = 2 powi (k + 1) * of_int (round_half_even (fl y / 2 powi (k + 1)))"
      by blast
    also have "fl y / 2 powi (k + 1) = of_int (2 ^ 52)"
      by (simp add: fy power_int_add)
    also have "2 powi (k + 1) * of_int (round_half_even (of_int (2 ^ 52))) = fl y"
      by (simp only: round_half_even_of_int) (simp add: fy power_int_add)
    finally show ?thesis .
  next
    case False
    then have mlt: "m < 2 ^ 53" using m53 by simp
    then have "(of_int m :: real) < 2 ^ 53" by (metis of_int_less_numeral_power_cancel_iff)
    then have "(2::real) powi k * of_int m < 2 powi k * 2 ^ 53"
      by (intro mult_strict_left_mono) simp_all
    then have up: "\<bar>fl y\<bar> < 2 powi (k + 53)" using fy0 by (simp add: f power_int_add)
    have "(2::real) powi (k + 53) \<le> 2 powi 1024" using k970 by (intro pow2_mono) simp
    then have r2: "\<bar>fl y\<bar> < 2 ^ 1024" using up by simp
    have lo: "2 powi (k + 52) \<le> \<bar>fl y\<bar> \<or> k = - 1074"
    proof (cases "k = - 1074")
      case True
      then show ?thesis by simp
    next
      case False
      then have "2 powi k * 2 ^ 52 \<le> y" using c y by (simp add: power_int_add)
      then have "of_int (2 ^ 52) \<le> y / ulp y"
        using ulp_pos[of y] by (simp add: u pos_le_divide_eq mult.commute)
      then have "2 ^ 52 \<le> m" unfolding m_def by (rule round_half_even_ge)
      then have "(2::real) ^ 52 \<le> of_int m" by (metis of_int_le_iff of_int_numeral of_int_power)
      then have "(2::real) powi k * 2 ^ 52 \<le> 2 powi k * of_int m"
        by (intro mult_left_mono) simp_all
      then show ?thesis using fy0 by (simp add: f power_int_add)
    qed
    have "- 1074 \<le> k" using c by simp
    from fl_eval[OF this up lo r2]
    have "fl (fl y) = 2 powi k * of_int (round_half_even (fl y / 2 powi k))" .
    also have "fl y / 2 powi k = of_int m" by (simp add: f)
    also have "2 powi k * of_int (round_half_even (of_int m)) = fl y"
      by (simp only: round_half_even_of_int f)
    finally show ?thesis .
  qed
qed

lemma fl_fl: "\<bar>y\<bar> < 2 ^ 1023 \<Longrightarrow> fl (fl y) = fl y"
proof (cases "0 \<le> y")
  case True
  assume "\<bar>y\<bar> < 2 ^ 1023"
  then show ?thesis using True fl_fl_nonneg[of y] by simp
next
  case False
  assume "\<bar>y\<bar> < 2 ^ 1023"
  then have "fl (fl (- y)) = fl (- y)" using False fl_fl_nonneg[of "- y"] by simp
  then show ?thesis by (simp add: fl_minus)
qed


lemma round_half_even_mono: "z \<le> z' \<Longrightarrow> round_half_even z \<le> round_half_even z'"
proof -
  assume le: "z \<le> z'"
  then have fl: "\<lfloor>z\<rfloor> \<le> \<lfloor>z'\<rfloor>" by (rule floor_mono)
  show ?thesis
  proof (cases "\<lfloor>z\<rfloor> = \<lfloor>z'\<rfloor>")
    case True
    have "z - of_int \<lfloor>z\<rfloor> \<le> z' - of_int \<lfloor>z'\<rfloor>" using le True by simp
    then show ?thesis unfolding round_half_even_def Let_def True by auto
  next
    case False
    then have "\<lfloor>z\<rfloor> + 1 \<le> \<lfloor>z'\<rfloor>" using fl by simp
    moreover have "z \<le> of_int (\<lfloor>z\<rfloor> + 1)" by linarith
    then have "round_half_even z \<le> \<lfloor>z\<rfloor> + 1"
      by (rule round_half_even_le)
    moreover have "\<lfloor>z'\<rfloor> \<le> round_half_even z'"
      by (rule round_half_even_ge) simp
    ultimately show ?thesis by linarith
  qed
qed

lemma pow2_on_grid:
  assumes "exponent x \<le> j"
  shows "\<exists>n. 0 < n \<and> (2::real) powi j = of_int n * ulp x"
proof -
  define d where "d = nat (j - exponent x)"
  have "j = exponent x + int d" using assms by (simp add: d_def)
  then have "(2::real) powi j = 2 powi (exponent x + int d)" by simp
  also have "\<dots> = of_int (2 ^ d) * ulp x" by (simp add: power_int_add ulp_def)
  finally show ?thesis by (intro exI[of _ "2 ^ d"]) simp
qed

lemma fl_mono_exp_less:
  assumes le: "x \<le> y" and rx: "\<bar>x\<bar> < 2 ^ 1024" and ry: "\<bar>y\<bar> < 2 ^ 1024"
    and lt: "exponent x < exponent y"
  shows "fl x \<le> fl y"
proof -
  note cx = exponent_char[OF rx] and cy = exponent_char[OF ry]
  have "\<not> \<bar>y\<bar> \<le> \<bar>x\<bar>" using exponent_mono[of y x] rx lt by fastforce
  then have pos: "0 < y" using le by linarith
  have "exponent y \<noteq> - 1074" using lt cx by linarith
  then have low: "2 powi (exponent y + 52) \<le> y" using cy pos by simp
  have "(2::real) powi (exponent y + 52) = of_int (2 ^ 52) * ulp y"
    by (simp add: ulp_def power_int_add)
  then have g1: "2 powi (exponent y + 52) \<le> fl y" using fl_ge_grid[of "2 ^ 52" y] low by simp
  obtain n where n: "(2::real) powi (exponent y + 52) = of_int n * ulp x"
    using pow2_on_grid[of x "exponent y + 52"] lt by auto
  have "x \<le> \<bar>x\<bar>" by simp
  also have "\<dots> < 2 powi (exponent x + 53)" using cx by simp
  also have "\<dots> \<le> 2 powi (exponent y + 52)" using lt by (intro pow2_mono) simp
  finally have "x \<le> of_int n * ulp x" using n by simp
  then have "fl x \<le> of_int n * ulp x" by (rule fl_le_grid)
  then show ?thesis using g1 n by simp
qed

lemma fl_mono:
  assumes le: "x \<le> y" and rx: "\<bar>x\<bar> < 2 ^ 1024" and ry: "\<bar>y\<bar> < 2 ^ 1024"
  shows "fl x \<le> fl y"
proof -
  consider (eq) "exponent x = exponent y" | (lt) "exponent x < exponent y"
    | (gt) "exponent y < exponent x" by linarith
  then show ?thesis
  proof cases
    case eq
    then have u: "ulp x = ulp y" by (simp add: ulp_def)
    have "x / ulp y \<le> y / ulp y" using le ulp_pos[of y] by (simp add: divide_right_mono)
    then have "round_half_even (x / ulp y) \<le> round_half_even (y / ulp y)"
      by (rule round_half_even_mono)
    then have "(of_int (round_half_even (x / ulp y)) :: real) \<le> of_int (round_half_even (y / ulp y))"
      by simp
    then show ?thesis using ulp_pos[of y] by (simp add: fl_def u)
  next
    case lt
    then show ?thesis using fl_mono_exp_less[OF le rx ry] by simp
  next
    case gt
    have "fl (- y) \<le> fl (- x)"
      using fl_mono_exp_less[of "- y" "- x"] le rx ry gt by simp
    then show ?thesis by (simp add: fl_minus)
  qed
qed

subsection \<open>Single steps of the binary64 tracker\<close>

lemma fl_times_sgn:
  assumes "fl s = s"
  shows "fl (s * sgn e) = s * sgn e"
proof -
  have "sgn e = 1 \<or> sgn e = - 1 \<or> sgn e = 0" by (simp add: sgn_real_def)
  then show ?thesis using assms by (auto simp: fl_minus)
qed

lemma fl_abs_fl:
  assumes "\<bar>x\<bar> < 2 ^ 1023"
  shows "fl \<bar>fl x\<bar> = \<bar>fl x\<bar>"
proof (cases "0 \<le> fl x")
  case True
  then show ?thesis using fl_fl[OF assms] by simp
next
  case False
  then have "fl \<bar>fl x\<bar> = - fl (fl x)" by (simp add: fl_minus)
  then show ?thesis using False fl_fl[OF assms] by simp
qed

lemma advance64_far:
  "\<bar>fl (current - target)\<bar> > maxStepDelta \<Longrightarrow> fl maxStepDelta = maxStepDelta \<Longrightarrow>
   advance64 support current target maxStepDelta
     = fl (current - maxStepDelta * sgn (fl (current - target)))"
  by (simp add: advance64_def Let_def fl_times_sgn)

lemma advance64_hold:
  "\<bar>fl (current - target)\<bar> \<le> maxStepDelta \<Longrightarrow>
   advance64 True current target maxStepDelta = current"
  by (simp add: advance64_def Let_def)

lemma advance64_snap:
  assumes "\<bar>fl (current - target)\<bar> \<le> maxStepDelta" "\<bar>current - target\<bar> < 2 ^ 1023"
  shows "advance64 False current target maxStepDelta = fl (current - \<bar>fl (current - target)\<bar>)"
proof -
  have "fl (current - target) * sgn (fl (current - target)) = \<bar>fl (current - target)\<bar>"
    by (simp add: sgn_real_def abs_if)
  then show ?thesis using assms(1) fl_abs_fl[OF assms(2)]
    by (simp add: advance64_def Let_def)
qed

text \<open>The binary64 values of the constants of the examples.\<close>

lemma fl_002: "fl 0.02 = 5764607523034235 / 2 ^ 58"
  by (subst fl_eval[where k = "- 58"]) (simp_all add: round_half_even_def)

lemma fl_04: "fl 0.4 = 3602879701896397 / 2 ^ 53"
  by (subst fl_eval[where k = "- 54"]) (simp_all add: round_half_even_def)

lemma fl_00008: "fl 0.0008 = 7378697629483821 / 2 ^ 63"
  by (subst fl_eval[where k = "- 63"]) (simp_all add: round_half_even_def)

lemma fl_0001: "fl 0.001 = 1152921504606847 / 2 ^ 60"
  by (subst fl_eval[where k = "- 62"]) (simp_all add: round_half_even_def)

lemma fl_50mm: "fl (50 / 1000) = 3602879701896397 / 2 ^ 56"
  by (subst fl_eval[where k = "- 57"]) (simp_all add: round_half_even_def)

lemma fl_9mm: "fl (9 / 1000) = 5188146770730811 / 2 ^ 59"
  by (subst fl_eval[where k = "- 59"]) (simp_all add: round_half_even_def)

lemma step_002: "fl (fl 0.02 * fl 0.02) = 7378697629483821 / 2 ^ 64"
  unfolding fl_002
  by (subst fl_eval[where k = "- 64"]) (simp_all add: round_half_even_def)

lemma step_04: "fl (fl 0.02 * fl 0.4) = 1152921504606847 / 2 ^ 57"
  unfolding fl_002 fl_04
  by (subst fl_eval[where k = "- 59"]) (simp_all add: round_half_even_def)


lemma fl_pm_cases:
  assumes "\<bar>e\<bar> > s" "0 \<le> s"
  shows "fl (c - s * sgn e) = fl (c - s) \<or> fl (c - s * sgn e) = fl (c + s)"
proof -
  have "e \<noteq> 0" using assms by auto
  then have "sgn e = 1 \<or> sgn e = - 1" by (auto simp: sgn_real_def)
  then show ?thesis by auto
qed


lemma snap_within:
  assumes c: "fl current = current" and rc: "\<bar>current\<bar> \<le> 2 ^ 1000"
    and rt: "\<bar>target\<bar> \<le> 2 ^ 1000" and rs: "maxStepDelta \<le> 2 ^ 1000"
    and near: "\<bar>fl (current - target)\<bar> \<le> maxStepDelta"
  shows "advance64 False current target maxStepDelta \<le> current"
proof -
  have big: "(2::real) ^ 1000 + 2 ^ 1000 < 2 ^ 1024" by simp
  have ry: "\<bar>current - \<bar>fl (current - target)\<bar>\<bar> < 2 ^ 1024" using rc rs near big by linarith
  have rcc: "\<bar>current\<bar> < 2 ^ 1024" using rc big by linarith
  have "fl (current - \<bar>fl (current - target)\<bar>) \<le> current"
    by (intro fl_le_double c ry rcc) simp
  moreover have "(2::real) ^ 1000 + 2 ^ 1000 < 2 ^ 1023" by simp
  then have "\<bar>current - target\<bar> < 2 ^ 1023" using rc rt by linarith
  ultimately show ?thesis using advance64_snap[OF near] by simp
qed

text \<open>When the error is computed without rounding, the binary64 step is the rounding of the
  exact step.\<close>

lemma advance64_of_exact_error:
  assumes e: "fl (current - target) = current - target" and s: "fl maxStepDelta = maxStepDelta"
    and r: "\<bar>current - target\<bar> < 2 ^ 1023"
  shows "advance64 support current target maxStepDelta =
           (if support \<and> \<bar>current - target\<bar> \<le> maxStepDelta then current
            else fl (advance support current target maxStepDelta))"
proof (cases "\<bar>current - target\<bar> > maxStepDelta")
  case True
  then have "\<bar>fl (current - target)\<bar> > maxStepDelta" by (simp add: e)
  from advance64_far[OF this s] True show ?thesis by (simp add: e advance_def Let_def)
next
  case False
  then have near: "\<bar>fl (current - target)\<bar> \<le> maxStepDelta" by (simp add: e)
  show ?thesis
  proof (cases support)
    case True
    then show ?thesis using advance64_hold[OF near] False by simp
  next
    case False
    have "(current - target) * sgn (current - target) = \<bar>current - target\<bar>"
      by (simp add: sgn_real_def abs_if)
    then show ?thesis using advance64_snap[OF near r] False \<open>\<not> maxStepDelta < \<bar>current - target\<bar>\<close>
      by (simp add: e advance_def Let_def)
  qed
qed

text \<open>From position 0 with a target within one step above, every operation is exact, and
  the binary64 tracker returns the target with the sign reversed.\<close>

lemma advance64_snap_from_zero:
  assumes t: "fl target = target" and s: "fl maxStepDelta = maxStepDelta"
    and h: "0 < target" "target \<le> maxStepDelta" and r: "target < 2 ^ 1023"
  shows "advance64 False 0 target maxStepDelta = - target"
proof -
  have e: "fl (0 - target) = 0 - target" using t by (simp add: fl_minus)
  have "advance False 0 target maxStepDelta = - target"
    using h by (simp add: advance_def Let_def sgn_real_def)
  then show ?thesis
    using advance64_of_exact_error[OF e s, of False] h r t by (simp add: fl_minus)
qed

lemma error_at_0008:
  "fl (7378697629483821 / 2 ^ 63 - 3602879701896397 / 2 ^ 56) = - (7090467253332109 / 2 ^ 57)"
  by (subst fl_eval[where k = "- 57"]) (simp_all add: round_half_even_def)

lemma sum_at_0008:
  "fl (7378697629483821 / 2 ^ 63 + 7378697629483821 / 2 ^ 64) = 2767011611056433 / 2 ^ 61"
  by (subst fl_eval[where k = "- 62"]) (simp_all add: round_half_even_def)

lemma error_at_001:
  "fl (1152921504606847 / 2 ^ 60 - 5188146770730811 / 2 ^ 59) = - (1152921504606847 / 2 ^ 57)"
  by (subst fl_eval[where k = "- 59"]) (simp_all add: round_half_even_def)

lemma difference_at_001:
  "fl (1152921504606847 / 2 ^ 60 - 1152921504606847 / 2 ^ 57) = - (8070450532247929 / 2 ^ 60)"
  by (subst fl_eval[where k = "- 60"]) (simp_all add: round_half_even_def)


text \<open>A tie: from \<open>-1\<close> with the target one spacing above, the subtraction of line 113 is
  halfway between \<open>-1\<close> and the next binary64 number below, and is rounded back to \<open>-1\<close>:
  the position is not lowered.\<close>

lemma error_at_tie: "fl (- 1 - (- 1 + 1 / 2 ^ 53)) = - (1 / 2 ^ 53)"
  by (subst fl_eval[where k = "- 105"]) (simp_all add: round_half_even_def)

lemma difference_at_tie: "fl (- 1 - 1 / 2 ^ 53) = - 1"
  by (subst fl_eval[where k = "- 52"]) (simp_all add: round_half_even_def)

lemma advance64_tie_keeps_position: "advance64 False (- 1) (- 1 + 1 / 2 ^ 53) 1 = - 1"
proof -
  have near: "\<bar>fl (- 1 - (- 1 + 1 / 2 ^ 53))\<bar> \<le> (1::real)"
    unfolding error_at_tie by simp
  have range: "\<bar>- 1 - (- 1 + 1 / 2 ^ 53)\<bar> < (2::real) ^ 1023" by simp
  show ?thesis
    unfolding advance64_snap[OF near range] error_at_tie using difference_at_tie by simp
qed

section \<open>The claims\<close>

text \<open>C1 (fails on the code). The claim: within one step of the target, the cam offset
  object is set to the target exactly. Line 113 subtracts \<open>PositionError * ErrorDir\<close>, the
  absolute value of the error, so a position below the target is moved further down. The run
  below is \<open>Initialise\<close> for the object \<open>ShaftOffset-Controlled\<close> with a time step of 0.1 s
  (rate step 0.002 m), then one \<open>Calculate\<close> at time 2 s in which the slider reports 1 mm
  (target 0.001 m), from position 0: the new X position is \<open>-0.001\<close>, not the target.\<close>

theorem C1_snap_below_target_moves_away:
  "new_position (Initialise_then_Calculate
     \<lparr>Name = ''ShaftOffset-Controlled'', Workspace = Map.empty, NewTimeStep = False,
       SimulationTime = 0, Position = [0, 0, 0], ImplicitConstantTimeStep = 0.1\<rparr>
     2 (Some ''cam'', [''cam'' \<mapsto> 1, ''support'' \<mapsto> 0])) = Inr [- 0.001, 0, 0]
   \<and> \<bar>0 - 0.001\<bar> \<le> (0.002::real)
   \<and> advance False 0 0.001 0.002 = - 0.001
   \<and> advance False 0 0.001 0.002 \<noteq> 0.001"
  by (simp add: run_defs advance_def Let_def)

text \<open>C2 (does not hold as stated). The claim: one call changes the position by at most
  \<open>maxStepDelta\<close>. The subtraction of line 109 is rounded. For the cam offset object with a time
  step of 0.02 s (rate step \<open>fl (fl 0.02 * fl 0.02)\<close>, line 40), the slider at 50 mm (target
  \<open>fl (50 / 1000)\<close>, line 93) and the position \<open>fl 0.0008\<close>, the new position is
  \<open>2767011611056433 / 2 ^ 61\<close> (printed 0.0012000000000000001), and its distance from the old
  position is greater than the rate step.\<close>

theorem C2_binary64_step_exceeds:
  "0 \<le> fl (fl 0.02 * fl 0.02)
   \<and> advance64 False (fl 0.0008) (fl (50 / 1000)) (fl (fl 0.02 * fl 0.02))
       = 2767011611056433 / 2 ^ 61
   \<and> \<not> \<bar>advance64 False (fl 0.0008) (fl (50 / 1000)) (fl (fl 0.02 * fl 0.02)) - fl 0.0008\<bar>
         \<le> fl (fl 0.02 * fl 0.02)"
proof -
  have step_exact: "fl (fl (fl 0.02 * fl 0.02)) = fl (fl 0.02 * fl 0.02)"
    by (rule fl_fl) (unfold fl_002, simp)
  have far: "\<bar>fl (fl 0.0008 - fl (50 / 1000))\<bar> > fl (fl 0.02 * fl 0.02)"
    unfolding step_002 fl_00008 fl_50mm error_at_0008 by simp
  have "advance64 False (fl 0.0008) (fl (50 / 1000)) (fl (fl 0.02 * fl 0.02))
      = fl (7378697629483821 / 2 ^ 63 + 7378697629483821 / 2 ^ 64)"
    unfolding advance64_far[OF far step_exact]
    unfolding step_002 fl_00008 fl_50mm error_at_0008 by simp
  then have new: "advance64 False (fl 0.0008) (fl (50 / 1000)) (fl (fl 0.02 * fl 0.02))
      = 2767011611056433 / 2 ^ 61"
    unfolding sum_at_0008 .
  show ?thesis unfolding new unfolding step_002 fl_00008 by simp
qed

text \<open>C2 as amended. For binary64 numbers of magnitude at most \<open>2 ^ 1000\<close>, \<open>maxStepDelta \<ge> 0\<close>
  and both roles, the new position lies between the rounded values of
  \<open>current - maxStepDelta\<close> and \<open>current + maxStepDelta\<close>. Its distance from \<open>current\<close> is
  therefore at most \<open>maxStepDelta\<close> plus half the spacing of the binary64 numbers at
  \<open>current - maxStepDelta\<close> or at \<open>current + maxStepDelta\<close>.\<close>

theorem C2_binary64_band:
  assumes c: "fl current = current" and s: "fl maxStepDelta = maxStepDelta"
    and s0: "0 \<le> maxStepDelta"
    and rc: "\<bar>current\<bar> \<le> 2 ^ 1000" and rt: "\<bar>target\<bar> \<le> 2 ^ 1000"
    and rs: "maxStepDelta \<le> 2 ^ 1000"
  shows "fl (current - maxStepDelta) \<le> advance64 support current target maxStepDelta
       \<and> advance64 support current target maxStepDelta \<le> fl (current + maxStepDelta)
       \<and> \<bar>advance64 support current target maxStepDelta - current\<bar>
           \<le> maxStepDelta + max (ulp (current - maxStepDelta)) (ulp (current + maxStepDelta)) / 2"
proof -
  let ?a = "advance64 support current target maxStepDelta"
  let ?e = "fl (current - target)"
  have big: "(2::real) ^ 1000 + 2 ^ 1000 < 2 ^ 1024" by simp
  have rlo: "\<bar>current - maxStepDelta\<bar> < 2 ^ 1024" using rc rs s0 big by linarith
  have rhi: "\<bar>current + maxStepDelta\<bar> < 2 ^ 1024" using rc rs s0 big by linarith
  have rcc: "\<bar>current\<bar> < 2 ^ 1024" using rc big by linarith
  have big3: "(2::real) ^ 1000 + 2 ^ 1000 < 2 ^ 1023" by simp
  have re: "\<bar>current - target\<bar> < 2 ^ 1023" using rc rt big3 by linarith
  have lo_hi: "fl (current - maxStepDelta) \<le> fl (current + maxStepDelta)"
    using s0 by (intro fl_mono rlo rhi) simp
  have lo_c: "fl (current - maxStepDelta) \<le> current"
    using s0 by (intro fl_le_double c rlo rcc) simp
  have c_hi: "current \<le> fl (current + maxStepDelta)"
    using s0 by (intro fl_ge_double c rhi rcc) simp
  have band: "fl (current - maxStepDelta) \<le> ?a \<and> ?a \<le> fl (current + maxStepDelta)"
  proof (cases "\<bar>?e\<bar> > maxStepDelta")
    case True
    have "?a = fl (current - maxStepDelta) \<or> ?a = fl (current + maxStepDelta)"
      unfolding advance64_far[OF True s] using fl_pm_cases[OF True s0] .
    then show ?thesis using lo_hi by auto
  next
    case False
    then have near: "\<bar>?e\<bar> \<le> maxStepDelta" by simp
    show ?thesis
    proof (cases support)
      case True
      then have "?a = current" using advance64_hold[OF near] by simp
      then show ?thesis using lo_c c_hi by simp
    next
      case False
      then have a: "?a = fl (current - \<bar>?e\<bar>)" using advance64_snap[OF near re] by simp
      have ry: "\<bar>current - \<bar>?e\<bar>\<bar> < 2 ^ 1024" using rc rs near big by linarith
      have "fl (current - maxStepDelta) \<le> fl (current - \<bar>?e\<bar>)"
        using near by (intro fl_mono rlo ry) simp
      moreover have "fl (current - \<bar>?e\<bar>) \<le> current"
        by (intro fl_le_double c ry rcc) simp
      ultimately show ?thesis using c_hi a by simp
    qed
  qed
  have u1: "fl (current + maxStepDelta) \<le> current + maxStepDelta + ulp (current + maxStepDelta) / 2"
    using fl_error[of "current + maxStepDelta"] by linarith
  have u2: "current - maxStepDelta - ulp (current - maxStepDelta) / 2 \<le> fl (current - maxStepDelta)"
    using fl_error[of "current - maxStepDelta"] by linarith
  have "\<bar>?a - current\<bar>
           \<le> maxStepDelta + max (ulp (current - maxStepDelta)) (ulp (current + maxStepDelta)) / 2"
    using band u1 u2 by (cases "ulp (current - maxStepDelta) \<le> ulp (current + maxStepDelta)")
      (simp_all add: max_def, linarith+)
  with band show ?thesis by blast
qed


theorem C2_binary64_band_witness:
  "fl (fl 0.0008) = fl 0.0008 \<and> fl (fl (fl 0.02 * fl 0.02)) = fl (fl 0.02 * fl 0.02)
   \<and> 0 \<le> fl (fl 0.02 * fl 0.02) \<and> \<bar>fl 0.0008\<bar> \<le> 2 ^ 1000
   \<and> \<bar>fl (50 / 1000)\<bar> \<le> 2 ^ 1000 \<and> fl (fl 0.02 * fl 0.02) \<le> 2 ^ 1000
   \<and> fl (fl 0.0008 - fl (fl 0.02 * fl 0.02))
        \<le> advance64 False (fl 0.0008) (fl (50 / 1000)) (fl (fl 0.02 * fl 0.02))
   \<and> advance64 False (fl 0.0008) (fl (50 / 1000)) (fl (fl 0.02 * fl 0.02))
        \<le> fl (fl 0.0008 + fl (fl 0.02 * fl 0.02))"
proof -
  have c: "fl (fl 0.0008) = fl 0.0008" by (rule fl_fl) simp
  have s: "fl (fl (fl 0.02 * fl 0.02)) = fl (fl 0.02 * fl 0.02)"
    by (rule fl_fl) (unfold fl_002, simp)
  have s0: "0 \<le> fl (fl 0.02 * fl 0.02)" unfolding step_002 by simp
  have rc: "\<bar>fl 0.0008\<bar> \<le> 2 ^ 1000" unfolding fl_00008 by simp
  have rt: "\<bar>fl (50 / 1000)\<bar> \<le> 2 ^ 1000" unfolding fl_50mm by simp
  have rs: "fl (fl 0.02 * fl 0.02) \<le> 2 ^ 1000" unfolding step_002 by simp
  from C2_binary64_band[OF c s s0 rc rt rs, of False] c s s0 rc rt rs
  show ?thesis by blast
qed






text \<open>C6. Within \<open>maxStepDelta\<close> of the target, the support object keeps its position.\<close>

theorem C6_support_holds:
  "\<bar>current - target\<bar> \<le> maxStepDelta \<Longrightarrow> advance True current target maxStepDelta = current"
  by (simp add: advance_def Let_def)

theorem C6_support_holds_witness:
  "\<bar>1.5 - 1.5005\<bar> \<le> (0.006::real) \<and> advance True 1.5 1.5005 0.006 = 1.5"
  using C6_support_holds[of "1.5" "1.5005" "0.006"] by simp

text \<open>C7 (does not hold as stated). The claim: below the target and within one step of it,
  the cam offset object is moved to \<open>2 * current - target\<close>. Both subtractions are rounded. With
  a time step of 0.4 s (rate step \<open>fl (fl 0.02 * fl 0.4)\<close>), the slider at 9 mm (target
  \<open>fl (9 / 1000)\<close>) and the position \<open>fl 0.001\<close>, the target is above the position and within
  one step; the new position is \<open>-8070450532247929 / 2 ^ 60\<close> (printed -0.007), and
  \<open>2 * current - target\<close> is \<open>-8070450532247928 / 2 ^ 60\<close>.\<close>

theorem C7_binary64_not_mirrored:
  "0 < fl (9 / 1000) - fl 0.001
   \<and> fl (9 / 1000) - fl 0.001 \<le> fl (fl 0.02 * fl 0.4)
   \<and> advance64 False (fl 0.001) (fl (9 / 1000)) (fl (fl 0.02 * fl 0.4))
       = - (8070450532247929 / 2 ^ 60)
   \<and> 2 * fl 0.001 - fl (9 / 1000) = - (8070450532247928 / 2 ^ 60)
   \<and> advance64 False (fl 0.001) (fl (9 / 1000)) (fl (fl 0.02 * fl 0.4))
       \<noteq> 2 * fl 0.001 - fl (9 / 1000)"
proof -
  have range: "\<bar>fl 0.001 - fl (9 / 1000)\<bar> < 2 ^ 1023"
    unfolding fl_0001 fl_9mm by simp
  have near: "\<bar>fl (fl 0.001 - fl (9 / 1000))\<bar> \<le> fl (fl 0.02 * fl 0.4)"
    unfolding step_04 fl_0001 fl_9mm error_at_001 by simp
  have "advance64 False (fl 0.001) (fl (9 / 1000)) (fl (fl 0.02 * fl 0.4))
      = fl (1152921504606847 / 2 ^ 60 - 1152921504606847 / 2 ^ 57)"
    unfolding advance64_snap[OF near range]
    unfolding fl_0001 fl_9mm error_at_001 by simp
  then have new: "advance64 False (fl 0.001) (fl (9 / 1000)) (fl (fl 0.02 * fl 0.4))
      = - (8070450532247929 / 2 ^ 60)"
    unfolding difference_at_001 .
  show ?thesis unfolding new unfolding step_04 fl_0001 fl_9mm by simp
qed

text \<open>C7 as amended. For binary64 numbers of magnitude at most \<open>2 ^ 1000\<close> and the cam offset
  object: whenever \<open>0 < target - current \<le> maxStepDelta\<close>, the new position is
  \<open>fl (current - \<bar>fl (current - target)\<bar>)\<close>, the position lowered by the computed distance to
  the target. It is not above \<open>current\<close>, so it is below the target and is not the target, and
  it differs from \<open>2 * current - target\<close> by at most the two rounding errors, half a spacing
  each. Whenever the branch of line 113 returns the target, \<open>current \<ge> target\<close>. (The new
  position can equal \<open>current\<close>: see \<open>advance64_tie_keeps_position\<close>.)\<close>

theorem C7_binary64_snap_below_target:
  assumes c: "fl current = current" and s: "fl maxStepDelta = maxStepDelta"
    and rc: "\<bar>current\<bar> \<le> 2 ^ 1000" and rt: "\<bar>target\<bar> \<le> 2 ^ 1000"
    and rs: "maxStepDelta \<le> 2 ^ 1000"
  shows "(0 < target - current \<and> target - current \<le> maxStepDelta \<longrightarrow>
            advance64 False current target maxStepDelta
              = fl (current - \<bar>fl (current - target)\<bar>)
          \<and> advance64 False current target maxStepDelta \<le> current
          \<and> advance64 False current target maxStepDelta \<noteq> target
          \<and> \<bar>advance64 False current target maxStepDelta - (2 * current - target)\<bar>
              \<le> ulp (current - target) / 2 + ulp (current - \<bar>fl (current - target)\<bar>) / 2)
       \<and> (\<bar>fl (current - target)\<bar> \<le> maxStepDelta
            \<and> advance64 False current target maxStepDelta = target \<longrightarrow> target \<le> current)"
proof (intro conjI impI)
  assume h: "0 < target - current \<and> target - current \<le> maxStepDelta"
  let ?e = "fl (current - target)"
  have big: "(2::real) ^ 1000 < 2 ^ 1024" by simp
  have re: "\<bar>current - target\<bar> < 2 ^ 1024" using h rs big by linarith
  have "(2::real) ^ 1000 < 2 ^ 1023" by simp
  then have re3: "\<bar>current - target\<bar> < 2 ^ 1023" using h rs by linarith
  have rss: "\<bar>- maxStepDelta\<bar> < 2 ^ 1024" using h rs big by linarith
  have e0: "?e \<le> 0" using h by (intro fl_nonpos) simp
  have "fl (- maxStepDelta) = - maxStepDelta" using s by (simp add: fl_minus)
  then have "- maxStepDelta \<le> ?e" using h by (intro fl_ge_double re rss) simp_all
  then have near: "\<bar>?e\<bar> \<le> maxStepDelta" using e0 by simp
  show a: "advance64 False current target maxStepDelta = fl (current - \<bar>?e\<bar>)"
    using advance64_snap[OF near re3] .
  show le: "advance64 False current target maxStepDelta \<le> current"
    using snap_within[OF c rc rt rs near] .
  show "advance64 False current target maxStepDelta \<noteq> target" using le h by linarith
  have "current - \<bar>?e\<bar> = (2 * current - target) + (?e - (current - target))"
    using e0 by simp
  moreover have "\<bar>?e - (current - target)\<bar> \<le> ulp (current - target) / 2" by (rule fl_error)
  moreover have "\<bar>fl (current - \<bar>?e\<bar>) - (current - \<bar>?e\<bar>)\<bar> \<le> ulp (current - \<bar>?e\<bar>) / 2"
    by (rule fl_error)
  ultimately show "\<bar>advance64 False current target maxStepDelta - (2 * current - target)\<bar>
              \<le> ulp (current - target) / 2 + ulp (current - \<bar>?e\<bar>) / 2"
    unfolding a by linarith
next
  assume h: "\<bar>fl (current - target)\<bar> \<le> maxStepDelta
            \<and> advance64 False current target maxStepDelta = target"
  then have "advance64 False current target maxStepDelta \<le> current"
    using snap_within[OF c rc rt rs] by blast
  then show "target \<le> current" using h by simp
qed


theorem C7_binary64_snap_below_target_witness:
  "fl (fl 0.001) = fl 0.001 \<and> fl (fl (fl 0.02 * fl 0.4)) = fl (fl 0.02 * fl 0.4)
   \<and> \<bar>fl 0.001\<bar> \<le> 2 ^ 1000 \<and> \<bar>fl (9 / 1000)\<bar> \<le> 2 ^ 1000
   \<and> fl (fl 0.02 * fl 0.4) \<le> 2 ^ 1000
   \<and> 0 < fl (9 / 1000) - fl 0.001 \<and> fl (9 / 1000) - fl 0.001 \<le> fl (fl 0.02 * fl 0.4)
   \<and> advance64 False (fl 0.001) (fl (9 / 1000)) (fl (fl 0.02 * fl 0.4)) \<le> fl 0.001
   \<and> advance64 False (fl 0.001) (fl (9 / 1000)) (fl (fl 0.02 * fl 0.4)) \<noteq> fl (9 / 1000)"
proof -
  have c: "fl (fl 0.001) = fl 0.001" by (rule fl_fl) simp
  have s: "fl (fl (fl 0.02 * fl 0.4)) = fl (fl 0.02 * fl 0.4)"
    by (rule fl_fl) (unfold fl_002 fl_04, simp)
  have rc: "\<bar>fl 0.001\<bar> \<le> 2 ^ 1000" unfolding fl_0001 by simp
  have rt: "\<bar>fl (9 / 1000)\<bar> \<le> 2 ^ 1000" unfolding fl_9mm by simp
  have rs: "fl (fl 0.02 * fl 0.4) \<le> 2 ^ 1000" unfolding step_04 by simp
  have h: "0 < fl (9 / 1000) - fl 0.001 \<and> fl (9 / 1000) - fl 0.001 \<le> fl (fl 0.02 * fl 0.4)"
    unfolding step_04 fl_0001 fl_9mm by simp
  from C7_binary64_snap_below_target[OF c s rc rt rs] h c s rc rt rs
  show ?thesis by blast
qed

text \<open>C8 (does not hold as stated). The claim: an unrecognised role name, or an invalid
  rate, makes initialisation raise. \<open>Initialise\<close> has no check and no \<open>else\<close> branch: for a
  name that is neither master name it returns normally.\<close>

theorem C8_unknown_name_not_rejected:
  "\<not> raises (Initialise
     \<lparr>Name = ''Winch'', Workspace = Map.empty, NewTimeStep = False,
       SimulationTime = 0, Position = [0, 0, 0], ImplicitConstantTimeStep = 0.1\<rparr>)"
  by (simp add: raises_def Initialise_def)

text \<open>C8 as amended. \<open>Initialise\<close> raises for no name and no time step. For a name that is
  neither master name it assigns the common settings only: the rate, the rate step, the
  offsets and the window stay unassigned and the workspace is unchanged. For the two master
  names the rate is the constant 0.02 or 0.30 and the rate step is the rate times the host's
  time step, stored without a check of its sign.\<close>

theorem C8_Initialise_never_raises:
  "\<not> raises (Initialise info)
   \<and> (Name info \<noteq> ''ShaftOffset-Controlled'' \<and> Name info \<noteq> ''MoveSupport-Controlled'' \<longrightarrow>
        Initialise info = Inr (settings info, info))
   \<and> (Name info = ''ShaftOffset-Controlled'' \<longrightarrow>
        Initialise info =
          Inr ((settings info) \<lparr> RateMax := Some 0.02,
                 RateStep := Some (0.02 * ImplicitConstantTimeStep info),
                 maxOffset := Some 0.15, TargetOffset := Some 0, TargetOffsetScale := Some 0,
                 window := Some (Window False) \<rparr>,
               info \<lparr> Workspace := (Workspace info)(''camdata'' \<mapsto> 0) \<rparr>))
   \<and> (Name info = ''MoveSupport-Controlled'' \<longrightarrow>
        Initialise info =
          Inr ((settings info) \<lparr> RateMax := Some 0.30,
                 RateStep := Some (0.30 * ImplicitConstantTimeStep info),
                 maxOffset := Some 3, TargetOffset := Some 0, TargetOffsetScale := Some 0 \<rparr>,
               info \<lparr> Workspace := (Workspace info)(''supportdata'' \<mapsto> 0) \<rparr>))"
  by (simp add: raises_def Initialise_def init_window_def init_support_def init_offset_def
      settings_def)

theorem C8_Initialise_never_raises_witness:
  "\<not> raises (Initialise \<lparr>Name = ''Vessel1'', Workspace = Map.empty, NewTimeStep = False,
       SimulationTime = 0, Position = [0, 0, 0], ImplicitConstantTimeStep = 0.02\<rparr>)
   \<and> new_position (Initialise \<lparr>Name = ''Vessel1'', Workspace = Map.empty, NewTimeStep = False,
       SimulationTime = 0, Position = [0, 0, 0], ImplicitConstantTimeStep = 0.02\<rparr>)
      = Inr [0, 0, 0]
   \<and> new_position (Initialise \<lparr>Name = ''ShaftOffset-Controlled'', Workspace = Map.empty,
        NewTimeStep = False, SimulationTime = 0, Position = [0, 0, 0],
        ImplicitConstantTimeStep = - 1\<rparr>) = Inr [0, 0, 0]
   \<and> new_position (Initialise \<lparr>Name = ''MoveSupport-Controlled'', Workspace = Map.empty,
        NewTimeStep = False, SimulationTime = 0, Position = [0, 0, 0],
        ImplicitConstantTimeStep = 0.02\<rparr>) = Inr [0, 0, 0]"
proof -
  let ?other = "\<lparr>Name = ''Vessel1'', Workspace = Map.empty, NewTimeStep = False,
       SimulationTime = 0, Position = [0, 0, 0], ImplicitConstantTimeStep = 0.02\<rparr>"
  let ?cam = "\<lparr>Name = ''ShaftOffset-Controlled'', Workspace = Map.empty,
        NewTimeStep = False, SimulationTime = 0, Position = [0, 0, 0],
        ImplicitConstantTimeStep = - 1\<rparr>"
  let ?support = "\<lparr>Name = ''MoveSupport-Controlled'', Workspace = Map.empty,
        NewTimeStep = False, SimulationTime = 0, Position = [0, 0, 0],
        ImplicitConstantTimeStep = 0.02\<rparr>"
  have n1: "Name ?other \<noteq> ''ShaftOffset-Controlled'' \<and> Name ?other \<noteq> ''MoveSupport-Controlled''"
    by simp
  have n2: "Name ?cam = ''ShaftOffset-Controlled''" by simp
  have n3: "Name ?support = ''MoveSupport-Controlled''" by simp
  have r: "\<not> raises (Initialise ?other)"
    using C8_Initialise_never_raises[of ?other] by (rule conjunct1)
  have e1: "Initialise ?other = Inr (settings ?other, ?other)"
    using C8_Initialise_never_raises[of ?other] n1 by blast
  have e2: "new_position (Initialise ?cam) = Inr [0, 0, 0]"
    using C8_Initialise_never_raises[of ?cam] n2
    by (simp add: new_position_def and_then_def)
  have e3: "new_position (Initialise ?support) = Inr [0, 0, 0]"
    using C8_Initialise_never_raises[of ?support] n3
    by (simp add: new_position_def and_then_def)
  have "new_position (Initialise ?other) = Inr [0, 0, 0]"
    by (simp only: e1) (simp add: new_position_def and_then_def)
  with r e2 e3 show ?thesis by blast
qed

text \<open>C9 (fails on the code). The claim: \<open>Finalise\<close> succeeds on an instance whose window was
  never opened. \<open>Finalise\<close> reads \<open>self.window\<close> without the test on the object's name that
  \<open>Initialise\<close> and \<open>Calculate\<close> make; the instance of the support object never assigned
  that attribute, and the read raises \<open>AttributeError\<close>.\<close>

theorem C9_Finalise_support_raises:
  "Initialise_then_Finalise
     \<lparr>Name = ''MoveSupport-Controlled'', Workspace = Map.empty, NewTimeStep = False,
       SimulationTime = 0, Position = [0, 0, 0], ImplicitConstantTimeStep = 0.1\<rparr>
    = Inl AttributeError"
  by (simp add: run_defs)

text \<open>C10. On a new time step before the start time, a call of \<open>Calculate\<close> that returns
  leaves \<open>info.StructValue.Position\<close> as it was, whatever the workspace, the slider event and
  the target offset are.\<close>

theorem C10_before_start_position_untouched:
  assumes new: "NewTimeStep info"
    and early: "SimulationTime info < StartTime self"
    and ret: "Calculate self info rd = Inr (self', info')"
  shows "Position info' = Position info"
proof -
  from ret new obtain info1 self1 self2 where
    p: "poll_window self info rd = Inr info1" and
    t1: "target_offset self info1 = Inr self1" and
    t2: "target_support self1 info1 = Inr self2" and
    r: "(if SimulationTime info1 < StartTime self2 then Inr (self2, info1) else move self2 info1)
          = Inr (self', info')"
    unfolding Calculate_def by (auto dest!: and_then_Inr)
  have "SimulationTime info1 < StartTime self2"
    using early poll_window_frame[OF p] target_offset_frame[OF t1] target_support_frame[OF t2]
    by simp
  with r have "info' = info1" by simp
  then show ?thesis using poll_window_frame[OF p] by simp
qed

theorem C10_before_start_position_untouched_witness:
  "NewTimeStep \<lparr>Name = ''MoveSupport-Controlled'', Workspace = [''supportdata'' \<mapsto> 2.5],
       NewTimeStep = True, SimulationTime = 0.5, Position = [1, 0, 0],
       ImplicitConstantTimeStep = 0.02\<rparr>
   \<and> SimulationTime \<lparr>Name = ''MoveSupport-Controlled'', Workspace = [''supportdata'' \<mapsto> 2.5],
       NewTimeStep = True, SimulationTime = 0.5, Position = [1, 0, 0],
       ImplicitConstantTimeStep = 0.02\<rparr>
     < StartTime ((settings \<lparr>Name = ''MoveSupport-Controlled'', Workspace = Map.empty,
       NewTimeStep = False, SimulationTime = 0, Position = [1, 0, 0],
       ImplicitConstantTimeStep = 0.02\<rparr>) \<lparr>RateStep := Some 0.006, TargetOffset := Some 0\<rparr>)
   \<and> new_position (Calculate
       ((settings \<lparr>Name = ''MoveSupport-Controlled'', Workspace = Map.empty,
         NewTimeStep = False, SimulationTime = 0, Position = [1, 0, 0],
         ImplicitConstantTimeStep = 0.02\<rparr>) \<lparr>RateStep := Some 0.006, TargetOffset := Some 0\<rparr>)
       \<lparr>Name = ''MoveSupport-Controlled'', Workspace = [''supportdata'' \<mapsto> 2.5],
         NewTimeStep = True, SimulationTime = 0.5, Position = [1, 0, 0],
         ImplicitConstantTimeStep = 0.02\<rparr>
       (None, Map.empty)) = Inr [1, 0, 0]"
proof -
  let ?info = "\<lparr>Name = ''MoveSupport-Controlled'', Workspace = [''supportdata'' \<mapsto> 2.5],
       NewTimeStep = True, SimulationTime = 0.5, Position = [1, 0, 0],
       ImplicitConstantTimeStep = 0.02\<rparr>"
  let ?self = "(settings \<lparr>Name = ''MoveSupport-Controlled'', Workspace = Map.empty,
       NewTimeStep = False, SimulationTime = 0, Position = [1, 0, 0],
       ImplicitConstantTimeStep = 0.02\<rparr>) \<lparr>RateStep := Some 0.006, TargetOffset := Some 0\<rparr>"
  have new: "NewTimeStep ?info" by simp
  have early: "SimulationTime ?info < StartTime ?self" by (simp add: settings_def)
  obtain self' where ret: "Calculate ?self ?info (None, Map.empty) = Inr (self', ?info)"
    using Calculate_early_returns[of ?info ?self "2.5" "(None, Map.empty)"]
    by (auto simp: settings_def)
  have "Position ?info = [1, 0, 0]" by simp
  with C10_before_start_position_untouched[OF new early ret] ret
  have "new_position (Calculate ?self ?info (None, Map.empty)) = Inr [1, 0, 0]"
    by (simp add: new_position_def and_then_def)
  with new early show ?thesis by blast
qed

end
